theory Spec2Isabelle
  imports Complex_Main "HOL-Library.Multiset"
begin

section \<open>Geometry: the Eigen types used by slam3d\<close>

text \<open>
  slam3d's \<open>Transform\<close> is \<open>Eigen::Transform<double,3,Eigen::Isometry>\<close>: a linear part
  (3x3) and a translation. Scalars are real numbers here: the rounding of \<open>double\<close> and
  \<open>float\<close> is not part of the model. Points of a cloud (\<open>pcl::PointXYZ\<close>) and
  positions are 3-vectors.
\<close>

datatype vec3 = Vec3 real real real

datatype mat3 = Mat3 vec3 vec3 vec3

fun vec_add :: "vec3 \<Rightarrow> vec3 \<Rightarrow> vec3" where
  "vec_add (Vec3 a b c) (Vec3 d e f) = Vec3 (a + d) (b + e) (c + f)"

fun vec_scale :: "real \<Rightarrow> vec3 \<Rightarrow> vec3" where
  "vec_scale s (Vec3 a b c) = Vec3 (s * a) (s * b) (s * c)"

fun vec_neg :: "vec3 \<Rightarrow> vec3" where
  "vec_neg (Vec3 a b c) = Vec3 (- a) (- b) (- c)"

fun dot :: "vec3 \<Rightarrow> vec3 \<Rightarrow> real" where
  "dot (Vec3 a b c) (Vec3 d e f) = a * d + b * e + c * f"

fun mat_vec :: "mat3 \<Rightarrow> vec3 \<Rightarrow> vec3" where
  "mat_vec (Mat3 r0 r1 r2) v = Vec3 (dot r0 v) (dot r1 v) (dot r2 v)"

fun transpose3 :: "mat3 \<Rightarrow> mat3" where
  "transpose3 (Mat3 (Vec3 a b c) (Vec3 d e f) (Vec3 g h i)) =
     Mat3 (Vec3 a d g) (Vec3 b e h) (Vec3 c f i)"

fun mat_mul :: "mat3 \<Rightarrow> mat3 \<Rightarrow> mat3" where
  "mat_mul (Mat3 r0 r1 r2) B =
     (let Bt = transpose3 B in Mat3 (mat_vec Bt r0) (mat_vec Bt r1) (mat_vec Bt r2))"

definition identity3 :: mat3 where
  "identity3 = Mat3 (Vec3 1 0 0) (Vec3 0 1 0) (Vec3 0 0 1)"

datatype Transform = Transform (linear_part: mat3) (translation: vec3)

text \<open>
  Composition and inverse of isometries as Eigen computes them: the product has linear
  part \<open>A * B\<close> and translation \<open>A * t\<^sub>B + t\<^sub>A\<close>; \<open>inverse()\<close> of an
  \<open>Isometry\<close> transposes the linear part and maps the translation to \<open>- (A\<^sup>T * t)\<close>.
  The instantiation only provides the notation \<open>a * b\<close>, \<open>1\<close> and \<open>inverse a\<close> that
  the C++ source uses; no algebraic law is assumed.
\<close>

instantiation Transform :: "{times, one, inverse}"
begin

definition times_Transform :: "Transform \<Rightarrow> Transform \<Rightarrow> Transform" where
  "times_Transform a b =
     Transform (mat_mul (linear_part a) (linear_part b))
       (vec_add (mat_vec (linear_part a) (translation b)) (translation a))"

definition one_Transform :: Transform where
  "one_Transform = Transform identity3 (Vec3 0 0 0)"

definition inverse_Transform :: "Transform \<Rightarrow> Transform" where
  "inverse_Transform a =
     Transform (transpose3 (linear_part a))
       (vec_neg (mat_vec (transpose3 (linear_part a)) (translation a)))"

definition divide_Transform :: "Transform \<Rightarrow> Transform \<Rightarrow> Transform" where
  "divide_Transform a b = a * inverse b"

instance ..

end

section \<open>Point clouds and the external point-cloud library\<close>

type_synonym PointType = vec3

type_synonym PointCloud = "PointType list"

text \<open>\<open>pcl::transformPointCloud\<close>: the rigid transform applied to every point.\<close>

definition transformPoint :: "Transform \<Rightarrow> PointType \<Rightarrow> PointType" where
  "transformPoint tf p = vec_add (mat_vec (linear_part tf) p) (translation tf)"

definition transformPointCloud :: "PointCloud \<Rightarrow> Transform \<Rightarrow> PointCloud" where
  "transformPointCloud cloud tf = map (transformPoint tf) cloud"

text \<open>
  The filters and the registration algorithms belong to PCL and pclomp, not to this
  repository. They are parameters of the model: a \<open>pcl_library\<close> gives, for each library
  entry point the source calls, the function it computes. \<open>pcl_before_1_8_1\<close> is the
  compile-time test \<open>PCL_VERSION_COMPARE(<, 1, 8, 1)\<close>.

  A registration object is the record of what the source sets on it before it calls
  \<open>align\<close>; the library's \<open>align\<close> maps the configured object and the initial guess
  to what the object reports afterwards (\<open>hasConverged\<close>, \<open>getFitnessScore\<close> as a
  function of its \<open>max_range\<close> argument, \<open>getFinalTransformation\<close>).
\<close>

record gicp_object =
  gicp_MaxCorrespondenceDistance :: real
  gicp_MaximumIterations :: int
  gicp_TransformationEpsilon :: real
  gicp_EuclideanFitnessEpsilon :: real
  gicp_CorrespondenceRandomness :: int
  gicp_MaximumOptimizerIterations :: int
  gicp_RotationEpsilon :: real
  gicp_InputSource :: PointCloud
  gicp_InputTarget :: PointCloud

record ndt_object =
  ndt_MaxCorrespondenceDistance :: real
  ndt_MaximumIterations :: int
  ndt_TransformationEpsilon :: real
  ndt_EuclideanFitnessEpsilon :: real
  ndt_OutlierRatio :: real
  ndt_StepSize :: real
  ndt_Resolution :: real
  ndt_InputSource :: PointCloud
  ndt_InputTarget :: PointCloud

record registration_outcome =
  hasConverged :: bool
  getFitnessScore :: "real \<Rightarrow> real"
  getFinalTransformation :: Transform

record pcl_library =
  pcl_before_1_8_1 :: bool
  VoxelGrid_filter :: "real \<Rightarrow> real \<Rightarrow> real \<Rightarrow> PointCloud \<Rightarrow> PointCloud"
  RadiusOutlierRemoval_filter :: "real \<Rightarrow> nat \<Rightarrow> PointCloud \<Rightarrow> PointCloud"
  gicp_align :: "gicp_object \<Rightarrow> Transform \<Rightarrow> registration_outcome"
  ndt_align :: "ndt_object \<Rightarrow> Transform \<Rightarrow> registration_outcome"

section \<open>Covariance matrices\<close>

text \<open>
  \<open>Covariance<6>\<close> is a dense 6x6 Eigen matrix, here a list of rows.
  \<open>mat_inverse\<close> stands for Eigen's \<open>inverse()\<close>: Gauss-Jordan elimination with
  partial pivoting on the matrix extended by the identity. On an invertible matrix it
  yields the inverse; on a singular one Eigen's result is not meaningful (the model
  then carries HOL's \<open>x / 0 = 0\<close>), so statements about it assume invertibility.
\<close>

type_synonym matrix = "real list list"

definition identity_matrix :: "nat \<Rightarrow> matrix" where
  "identity_matrix n = map (\<lambda>i. map (\<lambda>j. if i = j then 1 else 0) [0..<n]) [0..<n]"

definition scalar_mult :: "matrix \<Rightarrow> real \<Rightarrow> matrix" where
  "scalar_mult m s = map (map (\<lambda>a. a * s)) m"

definition pivot_index :: "matrix \<Rightarrow> nat \<Rightarrow> nat" where
  "pivot_index m k =
     foldl (\<lambda>best i. if \<bar>m ! i ! k\<bar> > \<bar>m ! best ! k\<bar> then i else best) k [Suc k..<length m]"

definition eliminate :: "matrix \<Rightarrow> nat \<Rightarrow> matrix" where
  "eliminate m k =
     (let p = pivot_index m k;
          m1 = m[k := m ! p, p := m ! k];
          piv = map (\<lambda>a. a / (m1 ! k ! k)) (m1 ! k)
      in map (\<lambda>i. if i = k then piv
                   else map2 (\<lambda>a b. a - (m1 ! i ! k) * b) (m1 ! i) piv) [0..<length m1])"

definition mat_inverse :: "matrix \<Rightarrow> matrix" where
  "mat_inverse m =
     (let n = length m;
          augmented = map2 (@) m (identity_matrix n)
      in map (drop n) (foldl eliminate augmented [0..<n]))"

section \<open>Measurements, vertices, constraints, errors\<close>

text \<open>
  Modelled from the spec: the classes \<open>Measurement\<close>, \<open>PointCloudMeasurement\<close>,
  \<open>VertexObject\<close>, \<open>SE3Constraint\<close>, \<open>RegistrationParameters\<close> and the members of
  \<open>PointCloudSensor\<close> are declared in headers that are not among the source files.
  The model keeps the members that the sensor code reads or writes, under the names
  the code uses. A \<open>Measurement\<close> pointer either points to a \<open>PointCloudMeasurement\<close>
  (the \<open>dynamic_pointer_cast\<close> succeeds) or to a measurement of another kind, of
  which only the sensor pose is read. The sensor pose is the fixed transform from the
  robot frame to the sensor frame, and \<open>getInverseSensorPose\<close> is its inverse (the
  spec's \<open>sensor_pose\<^sup>-\<^sup>1\<close>). \<open>SE3Constraint\<close> records the three constructor
  arguments in the order in which \<open>createConstraint\<close> passes them.
\<close>

record PointCloudMeasurement =
  mPointCloud :: PointCloud
  mSensorPose :: Transform

datatype Measurement = IsPointCloud PointCloudMeasurement | NotPointCloud Transform

definition getSensorPose :: "Measurement \<Rightarrow> Transform" where
  "getSensorPose m = (case m of IsPointCloud p \<Rightarrow> mSensorPose p | NotPointCloud s \<Rightarrow> s)"

definition getInverseSensorPose :: "Measurement \<Rightarrow> Transform" where
  "getInverseSensorPose m = inverse (getSensorPose m)"

definition dynamic_pointer_cast :: "Measurement \<Rightarrow> PointCloudMeasurement option" where
  "dynamic_pointer_cast m = (case m of IsPointCloud p \<Rightarrow> Some p | NotPointCloud s \<Rightarrow> None)"

definition getPointCloud :: "PointCloudMeasurement \<Rightarrow> PointCloud" where
  "getPointCloud p = mPointCloud p"

record VertexObject =
  corrected_pose :: Transform
  measurement :: Measurement

datatype SE3Constraint =
  SE3Constraint (constraint_sensor: string) (constraint_transform: Transform)
    (constraint_matrix: matrix)

datatype no_match = TooFewPoints | ICP_failed real real | NDT_failed real real | NoReason

datatype error = BadMeasurementType | NoMatch no_match

datatype RegistrationAlgorithm = GICP | NDT

record RegistrationParameters =
  point_cloud_density :: real
  max_correspondence_distance :: real
  maximum_iterations :: int
  transformation_epsilon :: real
  euclidean_fitness_epsilon :: real
  correspondence_randomness :: int
  maximum_optimizer_iterations :: int
  rotation_epsilon :: real
  max_fitness_score :: real
  registration_algorithm :: RegistrationAlgorithm
  outlier_ratio :: real
  step_size :: real
  resolution :: real

record PointCloudSensor =
  mName :: string
  mMapResolution :: real
  mMapOutlierRadius :: real
  mMapOutlierNeighbors :: nat
  mCoarseConfiguration :: RegistrationParameters
  mFineConfiguration :: RegistrationParameters
  mCovarianceScale :: real

section \<open>Preprocessing (slam3d/sensor/pcl/PointCloudSensor.cpp)\<close>

definition downsample :: "pcl_library \<Rightarrow> PointCloud \<Rightarrow> real \<Rightarrow> PointCloud" where
  "downsample pcl in_cloud leaf_size =
     (let out = [] in
      if length in_cloud > 0
      then VoxelGrid_filter pcl leaf_size leaf_size leaf_size in_cloud
      else out)"

definition removeOutliers :: "pcl_library \<Rightarrow> PointCloud \<Rightarrow> real \<Rightarrow> nat \<Rightarrow> PointCloud" where
  "removeOutliers pcl in_cloud radius min_neighbors =
     (let out = [] in
      if length in_cloud > 0
      then RadiusOutlierRemoval_filter pcl radius min_neighbors in_cloud
      else out)"

definition transform :: "PointCloud \<Rightarrow> Transform \<Rightarrow> PointCloud" where
  "transform source tf = transformPointCloud source tf"

text \<open>
  \<open>getAccumulatedCloud\<close> walks the vertex list with a reverse iterator, throws at the
  first measurement that is not a point cloud, and appends each transformed cloud to
  the accumulator (\<open>*accu += *tempCloud\<close>).
\<close>

fun accumulate_loop :: "VertexObject list \<Rightarrow> PointCloud \<Rightarrow> error + PointCloud" where
  "accumulate_loop [] accu = Inr accu"
| "accumulate_loop (it # rest) accu =
     (case dynamic_pointer_cast (measurement it) of
        None \<Rightarrow> Inl BadMeasurementType
      | Some pcl \<Rightarrow>
          (let tempCloud = transform (getPointCloud pcl) (corrected_pose it * mSensorPose pcl)
           in accumulate_loop rest (accu @ tempCloud)))"

definition getAccumulatedCloud :: "VertexObject list \<Rightarrow> error + PointCloud" where
  "getAccumulatedCloud vertices = accumulate_loop (rev vertices) []"

section \<open>Scan registration (slam3d/sensor/pcl/PointCloudSensor.cpp)\<close>

text \<open>
  \<open>doICP\<close> and \<open>doNDT\<close> configure a registration object, hand it to the library and
  gate the outcome. \<open>doICP_setup\<close> and \<open>doNDT_setup\<close> are the configured object and
  the guess that reach the library's \<open>align\<close>. When built against PCL before 1.8.1,
  \<open>doICP\<close> shifts the target cloud by the guess, aligns without a guess (the library
  then starts from the identity) and multiplies the guess onto the result.
\<close>

definition doICP_setup ::
  "pcl_library \<Rightarrow> PointCloud \<Rightarrow> PointCloud \<Rightarrow> Transform \<Rightarrow> RegistrationParameters
     \<Rightarrow> gicp_object \<times> Transform" where
  "doICP_setup pcl source target guess config =
     (let icp = \<lparr> gicp_MaxCorrespondenceDistance = max_correspondence_distance config,
                   gicp_MaximumIterations = maximum_iterations config,
                   gicp_TransformationEpsilon = transformation_epsilon config,
                   gicp_EuclideanFitnessEpsilon = euclidean_fitness_epsilon config,
                   gicp_CorrespondenceRandomness = correspondence_randomness config,
                   gicp_MaximumOptimizerIterations = maximum_optimizer_iterations config,
                   gicp_RotationEpsilon = rotation_epsilon config,
                   gicp_InputSource = [],
                   gicp_InputTarget = [] \<rparr>
      in if pcl_before_1_8_1 pcl
         then (let shifted_target = transformPointCloud target guess
               in (icp\<lparr> gicp_InputSource := shifted_target, gicp_InputTarget := source \<rparr>, 1))
         else (icp\<lparr> gicp_InputSource := target, gicp_InputTarget := source \<rparr>, guess))"

definition doICP ::
  "pcl_library \<Rightarrow> PointCloud \<Rightarrow> PointCloud \<Rightarrow> Transform \<Rightarrow> RegistrationParameters
     \<Rightarrow> error + Transform" where
  "doICP pcl source target guess config =
     (let (icp, library_guess) = doICP_setup pcl source target guess config;
          aligned = gicp_align pcl icp library_guess;
          score = getFitnessScore aligned (max_correspondence_distance config)
      in if \<not> hasConverged aligned \<or> score > max_fitness_score config
         then Inl (NoMatch (ICP_failed score (max_fitness_score config)))
         else (let icp_result = getFinalTransformation aligned
               in if pcl_before_1_8_1 pcl then Inr (icp_result * guess) else Inr icp_result))"

definition doNDT_setup ::
  "PointCloud \<Rightarrow> PointCloud \<Rightarrow> Transform \<Rightarrow> RegistrationParameters
     \<Rightarrow> ndt_object \<times> Transform" where
  "doNDT_setup source target guess config =
     (let ndt = \<lparr> ndt_MaxCorrespondenceDistance = max_correspondence_distance config,
                   ndt_MaximumIterations = maximum_iterations config,
                   ndt_TransformationEpsilon = transformation_epsilon config,
                   ndt_EuclideanFitnessEpsilon = euclidean_fitness_epsilon config,
                   ndt_OutlierRatio = outlier_ratio config,
                   ndt_StepSize = step_size config,
                   ndt_Resolution = resolution config,
                   ndt_InputSource = [],
                   ndt_InputTarget = [] \<rparr>
      in (ndt\<lparr> ndt_InputSource := target, ndt_InputTarget := source \<rparr>, guess))"

definition doNDT ::
  "pcl_library \<Rightarrow> PointCloud \<Rightarrow> PointCloud \<Rightarrow> Transform \<Rightarrow> RegistrationParameters
     \<Rightarrow> error + Transform" where
  "doNDT pcl source target guess config =
     (let (ndt, library_guess) = doNDT_setup source target guess config;
          aligned = ndt_align pcl ndt library_guess;
          score = getFitnessScore aligned (max_correspondence_distance config)
      in if \<not> hasConverged aligned \<or> score > max_fitness_score config
         then Inl (NoMatch (NDT_failed score (max_fitness_score config)))
         else Inr (getFinalTransformation aligned))"

text \<open>
  \<open>align\<close>: the block guarded by \<open>point_cloud_density > 0\<close> declares two new locals
  named \<open>filtered_source\<close> and \<open>filtered_target\<close>; their scope ends with the block,
  and the statements after it read the outer variables of the same names.
\<close>

definition align ::
  "pcl_library \<Rightarrow> PointCloudMeasurement \<Rightarrow> PointCloudMeasurement \<Rightarrow> Transform
     \<Rightarrow> RegistrationParameters \<Rightarrow> error + Transform" where
  "align pcl source target guess config =
     (let filtered_source = getPointCloud source;
          filtered_target = getPointCloud target;
          block = (if point_cloud_density config > 0
                   then (let filtered_source =
                               downsample pcl (getPointCloud source) (point_cloud_density config);
                             filtered_target =
                               downsample pcl (getPointCloud target) (point_cloud_density config)
                         in ())
                   else ())
      in if length filtered_target < 100 \<or> length filtered_source < 100
         then Inl (NoMatch TooFewPoints)
         else if registration_algorithm config = GICP
         then doICP pcl filtered_source filtered_target guess config
         else doNDT pcl filtered_source filtered_target guess config)"

definition createConstraint ::
  "pcl_library \<Rightarrow> PointCloudSensor \<Rightarrow> Measurement \<Rightarrow> Measurement \<Rightarrow> Transform \<Rightarrow> bool
     \<Rightarrow> error + SE3Constraint" where
  "createConstraint pcl sensor source target odometry loop =
     (let guess = getInverseSensorPose source * odometry * getSensorPose target
      in case (dynamic_pointer_cast source, dynamic_pointer_cast target) of
           (Some sourceCloud, Some targetCloud) \<Rightarrow>
             (case (if loop
                    then align pcl sourceCloud targetCloud guess (mCoarseConfiguration sensor)
                    else Inr guess) of
                Inl e \<Rightarrow> Inl e
              | Inr guess \<Rightarrow>
                  (case align pcl sourceCloud targetCloud guess (mFineConfiguration sensor) of
                     Inl e \<Rightarrow> Inl e
                   | Inr icp_result \<Rightarrow>
                       (let transform =
                              getSensorPose source * icp_result * getInverseSensorPose target;
                            covariance =
                              scalar_mult (identity_matrix 6) (mCovarianceScale sensor)
                        in Inr (SE3Constraint (mName sensor) transform
                                 (mat_inverse covariance)))))
         | _ \<Rightarrow> Inl BadMeasurementType)"

section \<open>Map building (slam3d/sensor/pcl/PointCloudSensor.cpp)\<close>

definition buildMap ::
  "pcl_library \<Rightarrow> PointCloudSensor \<Rightarrow> VertexObject list \<Rightarrow> error + PointCloud" where
  "buildMap pcl sensor vertices =
     (case getAccumulatedCloud vertices of
        Inl e \<Rightarrow> Inl e
      | Inr accu \<Rightarrow>
          (let cleaned = removeOutliers pcl accu (mMapOutlierRadius sensor)
                           (mMapOutlierNeighbors sensor)
           in Inr (downsample pcl cleaned (mMapResolution sensor))))"

section \<open>The earlier sensor (src/PointCloudSensor.cpp)\<close>

text \<open>
  The earlier version of the sensor has one registration routine,
  \<open>calculateTransform\<close>: its flag selects the coarse or the fine configuration for a
  single GICP run on the downsampled clouds. Its \<open>downsample\<close> has no guard for the
  empty cloud, it always shifts the target by the guess, it reads the fitness score
  with the library's default range \<open>std::numeric_limits<double>::max()\<close>, it throws
  \<open>NoMatch\<close> without a message, and it returns the transform together with the
  unscaled identity as covariance. Its \<open>getAccumulatedCloud\<close> is the one above. The
  configuration record is shared with the later version; only the GICP members are
  read.
\<close>

definition DBL_MAX :: real where
  "DBL_MAX = (2 - 1 / 2 ^ 52) * 2 ^ 1023"

definition downsample_v0 :: "pcl_library \<Rightarrow> PointCloud \<Rightarrow> real \<Rightarrow> PointCloud" where
  "downsample_v0 pcl in_cloud leaf_size = VoxelGrid_filter pcl leaf_size leaf_size leaf_size in_cloud"

record TransformWithCovariance =
  twc_transform :: Transform
  twc_covariance :: matrix

definition calculateTransform_setup ::
  "pcl_library \<Rightarrow> PointCloudMeasurement \<Rightarrow> PointCloudMeasurement \<Rightarrow> Transform
     \<Rightarrow> RegistrationParameters \<Rightarrow> gicp_object" where
  "calculateTransform_setup pcl sourceCloud targetCloud guess config =
     (let filtered_source =
            downsample_v0 pcl (getPointCloud sourceCloud) (point_cloud_density config);
          filtered_target =
            downsample_v0 pcl (getPointCloud targetCloud) (point_cloud_density config);
          icp = \<lparr> gicp_MaxCorrespondenceDistance = max_correspondence_distance config,
                  gicp_MaximumIterations = maximum_iterations config,
                  gicp_TransformationEpsilon = transformation_epsilon config,
                  gicp_EuclideanFitnessEpsilon = euclidean_fitness_epsilon config,
                  gicp_CorrespondenceRandomness = correspondence_randomness config,
                  gicp_MaximumOptimizerIterations = maximum_optimizer_iterations config,
                  gicp_RotationEpsilon = rotation_epsilon config,
                  gicp_InputSource = [],
                  gicp_InputTarget = [] \<rparr>;
          shifted_target = transformPointCloud filtered_target guess
      in icp\<lparr> gicp_InputSource := shifted_target, gicp_InputTarget := filtered_source \<rparr>)"

definition calculateTransform ::
  "pcl_library \<Rightarrow> PointCloudSensor \<Rightarrow> Measurement \<Rightarrow> Measurement \<Rightarrow> Transform \<Rightarrow> bool
     \<Rightarrow> error + TransformWithCovariance" where
  "calculateTransform pcl sensor source target odometry coarse =
     (let guess = getInverseSensorPose source * odometry * getSensorPose target
      in case (dynamic_pointer_cast source, dynamic_pointer_cast target) of
           (Some sourceCloud, Some targetCloud) \<Rightarrow>
             (let config = (if coarse then mCoarseConfiguration sensor
                            else mFineConfiguration sensor);
                  icp = calculateTransform_setup pcl sourceCloud targetCloud guess config;
                  aligned = gicp_align pcl icp 1
              in if \<not> hasConverged aligned \<or>
                    getFitnessScore aligned DBL_MAX > max_fitness_score config
                 then Inl (NoMatch NoReason)
                 else (let icp_result = getFinalTransformation aligned * guess
                       in Inr \<lparr> twc_transform =
                                  getSensorPose source * icp_result *
                                    getInverseSensorPose target,
                                twc_covariance = identity_matrix 6 \<rparr>))
         | _ \<Rightarrow> Inl BadMeasurementType)"

section \<open>Orientation prior edge (slam3d/solver/g2o/edge_orientation_prior.cpp)\<close>

text \<open>
  Eigen's quaternions: the Hamilton product, \<open>inverse()\<close> (the conjugate divided by
  the squared norm, and the zero quaternion when the squared norm is not positive),
  \<open>toRotationMatrix()\<close>, and the construction of a quaternion from a 3x3 matrix
  (Shoemake's method, as in Eigen's \<open>Quaternion(const MatrixBase&)\<close>). The
  coefficient vector of a quaternion is ordered \<open>x, y, z, w\<close>.
\<close>

datatype Quaternion = Quaternion (qw: real) (qx: real) (qy: real) (qz: real)

definition squaredNorm :: "Quaternion \<Rightarrow> real" where
  "squaredNorm q = qx q * qx q + qy q * qy q + qz q * qz q + qw q * qw q"

definition conjugate :: "Quaternion \<Rightarrow> Quaternion" where
  "conjugate q = Quaternion (qw q) (- qx q) (- qy q) (- qz q)"

instantiation Quaternion :: "{times, inverse}"
begin

definition times_Quaternion :: "Quaternion \<Rightarrow> Quaternion \<Rightarrow> Quaternion" where
  "times_Quaternion a b =
     Quaternion
       (qw a * qw b - qx a * qx b - qy a * qy b - qz a * qz b)
       (qw a * qx b + qx a * qw b + qy a * qz b - qz a * qy b)
       (qw a * qy b + qy a * qw b + qz a * qx b - qx a * qz b)
       (qw a * qz b + qz a * qw b + qx a * qy b - qy a * qx b)"

definition inverse_Quaternion :: "Quaternion \<Rightarrow> Quaternion" where
  "inverse_Quaternion q =
     (let n2 = squaredNorm q
      in if n2 > 0
         then Quaternion (qw (conjugate q) / n2) (qx (conjugate q) / n2)
                (qy (conjugate q) / n2) (qz (conjugate q) / n2)
         else Quaternion 0 0 0 0)"

definition divide_Quaternion :: "Quaternion \<Rightarrow> Quaternion \<Rightarrow> Quaternion" where
  "divide_Quaternion a b = a * inverse b"

instance ..

end

definition toRotationMatrix :: "Quaternion \<Rightarrow> mat3" where
  "toRotationMatrix q =
     (let tx = 2 * qx q; ty = 2 * qy q; tz = 2 * qz q;
          twx = tx * qw q; twy = ty * qw q; twz = tz * qw q;
          txx = tx * qx q; txy = ty * qx q; txz = tz * qx q;
          tyy = ty * qy q; tyz = tz * qy q; tzz = tz * qz q
      in Mat3 (Vec3 (1 - (tyy + tzz)) (txy - twz) (txz + twy))
              (Vec3 (txy + twz) (1 - (txx + tzz)) (tyz - twx))
              (Vec3 (txz - twy) (tyz + twx) (1 - (txx + tyy))))"

fun vec_coeff :: "vec3 \<Rightarrow> nat \<Rightarrow> real" where
  "vec_coeff (Vec3 a b c) i = (if i = 0 then a else if i = 1 then b else c)"

fun coeff :: "mat3 \<Rightarrow> nat \<Rightarrow> nat \<Rightarrow> real" where
  "coeff (Mat3 r0 r1 r2) i j = vec_coeff (if i = 0 then r0 else if i = 1 then r1 else r2) j"

definition quaternion_of_matrix :: "mat3 \<Rightarrow> Quaternion" where
  "quaternion_of_matrix mat =
     (let t = coeff mat 0 0 + coeff mat 1 1 + coeff mat 2 2
      in if t > 0
         then (let t1 = sqrt (t + 1);
                   w = 0.5 * t1;
                   t2 = 0.5 / t1
               in Quaternion w
                    ((coeff mat 2 1 - coeff mat 1 2) * t2)
                    ((coeff mat 0 2 - coeff mat 2 0) * t2)
                    ((coeff mat 1 0 - coeff mat 0 1) * t2))
         else (let i0 = (if coeff mat 1 1 > coeff mat 0 0 then 1 else 0);
                   i = (if coeff mat 2 2 > coeff mat i0 i0 then 2 else i0);
                   j = (i + 1) mod 3;
                   k = (j + 1) mod 3;
                   t1 = sqrt (coeff mat i i - coeff mat j j - coeff mat k k + 1);
                   t2 = 0.5 / t1;
                   coeffs = [0, 0, 0][i := 0.5 * t1,
                                      j := (coeff mat j i + coeff mat i j) * t2,
                                      k := (coeff mat k i + coeff mat i k) * t2]
               in Quaternion ((coeff mat k j - coeff mat j k) * t2)
                    (coeffs ! 0) (coeffs ! 1) (coeffs ! 2)))"

text \<open>\<open>Isometry3 * Quaternion\<close>: the linear part is multiplied by the rotation matrix.\<close>

definition rotate_by :: "Transform \<Rightarrow> Quaternion \<Rightarrow> Transform" where
  "rotate_by tf q = Transform (mat_mul (linear_part tf) (toRotationMatrix q)) (translation tf)"

text \<open>
  The edge is a \<open>BaseUnaryEdge<3, Quaternion, VertexSE3>\<close>: besides its own
  \<open>_sensor_pose\<close> it has the base class's \<open>_measurement\<close>, \<open>_information\<close>,
  \<open>_error\<close> and the single vertex slot \<open>_vertices[0]\<close>, of which \<open>computeError\<close>
  reads the estimate. The constructor starts from the base class's state.
\<close>

record VertexSE3 =
  estimate :: Transform

record EdgeOrientationPrior =
  e_measurement :: Quaternion
  e_information :: mat3
  e_sensor_pose :: Transform
  e_error :: vec3
  e_vertex :: VertexSE3

definition new_EdgeOrientationPrior ::
  "EdgeOrientationPrior \<Rightarrow> Quaternion \<Rightarrow> Transform \<Rightarrow> EdgeOrientationPrior" where
  "new_EdgeOrientationPrior base m s =
     base\<lparr> e_measurement := m, e_information := identity3, e_sensor_pose := s \<rparr>"

definition computeError :: "EdgeOrientationPrior \<Rightarrow> EdgeOrientationPrior" where
  "computeError edge =
     (let vertex = e_vertex edge;
          current_state = quaternion_of_matrix (linear_part (estimate vertex));
          exp = rotate_by (inverse (e_sensor_pose edge)) (e_measurement edge);
          expected_state = quaternion_of_matrix (linear_part exp);
          err = inverse expected_state * current_state
      in edge\<lparr> e_error := Vec3 (qx err) (qy err) (qz err) \<rparr>)"

section \<open>The library run behind \<open>align\<close>, and concrete inputs\<close>

text \<open>
  \<open>registration_run\<close> names the outcome the library reports for the run that
  \<open>align\<close> starts on two clouds: GICP or NDT by the configured algorithm, on the
  object and guess that \<open>doICP\<close> or \<open>doNDT\<close> set up.
\<close>

definition registration_run ::
  "pcl_library \<Rightarrow> PointCloud \<Rightarrow> PointCloud \<Rightarrow> Transform \<Rightarrow> RegistrationParameters
     \<Rightarrow> registration_outcome" where
  "registration_run pcl source target guess config =
     (if registration_algorithm config = GICP
      then gicp_align pcl (fst (doICP_setup pcl source target guess config))
             (snd (doICP_setup pcl source target guess config))
      else ndt_align pcl (fst (doNDT_setup source target guess config))
             (snd (doNDT_setup source target guess config)))"

text \<open>
  Concrete inputs for evaluating the model. \<open>example_pcl\<close> is a library whose voxel
  grid returns the centroid of the cloud (what \<open>VoxelGrid\<close> computes when all points
  share one voxel), whose outlier filter keeps every point, and whose registrations
  converge at their initial guess with fitness score 0 (identical, aligned clouds).
  \<open>failing_pcl\<close> differs in that no registration converges. \<open>scan\<close> is a cloud of
  100 points at the sensor's origin, taken by a sensor mounted one metre ahead of the
  robot and turned by a quarter turn about the vertical axis.
\<close>

definition converged_at :: "Transform \<Rightarrow> registration_outcome" where
  "converged_at g =
     \<lparr> hasConverged = True, getFitnessScore = (\<lambda>max_range. 0), getFinalTransformation = g \<rparr>"

definition centroid :: "PointCloud \<Rightarrow> PointType" where
  "centroid cloud = vec_scale (1 / real (length cloud)) (foldr vec_add cloud (Vec3 0 0 0))"

definition example_pcl :: "bool \<Rightarrow> pcl_library" where
  "example_pcl before =
     \<lparr> pcl_before_1_8_1 = before,
       VoxelGrid_filter = (\<lambda>lx ly lz cloud. [centroid cloud]),
       RadiusOutlierRemoval_filter = (\<lambda>radius min_neighbors cloud. cloud),
       gicp_align = (\<lambda>icp guess. converged_at guess),
       ndt_align = (\<lambda>ndt guess. converged_at guess) \<rparr>"

definition failing_pcl :: pcl_library where
  "failing_pcl =
     (example_pcl False)
       \<lparr> gicp_align := (\<lambda>icp guess. (converged_at guess)\<lparr> hasConverged := False \<rparr>),
         ndt_align := (\<lambda>ndt guess. (converged_at guess)\<lparr> hasConverged := False \<rparr>) \<rparr>"

definition mount :: Transform where
  "mount = Transform (Mat3 (Vec3 0 (- 1) 0) (Vec3 1 0 0) (Vec3 0 0 1)) (Vec3 1 0 0)"

definition scan :: PointCloudMeasurement where
  "scan = \<lparr> mPointCloud = replicate 100 (Vec3 0 0 0), mSensorPose = mount \<rparr>"

definition example_config :: "RegistrationAlgorithm \<Rightarrow> real \<Rightarrow> RegistrationParameters" where
  "example_config algorithm density =
     \<lparr> point_cloud_density = density,
       max_correspondence_distance = 1,
       maximum_iterations = 50,
       transformation_epsilon = 0,
       euclidean_fitness_epsilon = 0,
       correspondence_randomness = 20,
       maximum_optimizer_iterations = 20,
       rotation_epsilon = 0,
       max_fitness_score = 2,
       registration_algorithm = algorithm,
       outlier_ratio = 0,
       step_size = 0,
       resolution = 1 \<rparr>"

definition example_sensor :: PointCloudSensor where
  "example_sensor =
     \<lparr> mName = ''laser'',
       mMapResolution = 0.1,
       mMapOutlierRadius = 0.2,
       mMapOutlierNeighbors = 3,
       mCoarseConfiguration = example_config NDT 1,
       mFineConfiguration = example_config GICP 0,
       mCovarianceScale = 2 \<rparr>"

section \<open>Properties of preprocessing and accumulation\<close>

text \<open>
  C8: for every leaf size, radius and neighbour count, and whatever the library's
  filters compute, \<open>downsample\<close> of an empty cloud is the empty cloud and
  \<open>removeOutliers\<close> of an empty cloud is the empty cloud; neither can fail (their
  results are clouds, not errors), and the library's filters are not called.
\<close>

theorem empty_cloud_stays_empty:
  "downsample pcl [] leaf_size = [] \<and> removeOutliers pcl [] radius min_neighbors = []"
  by (simp add: downsample_def removeOutliers_def)

lemma accumulate_loop_point_clouds:
  "accumulate_loop
     (map (\<lambda>(pose, p). \<lparr> corrected_pose = pose, measurement = IsPointCloud p \<rparr>) xs) accu =
   Inr (accu @
        concat (map (\<lambda>(pose, p). transformPointCloud (mPointCloud p) (pose * mSensorPose p)) xs))"
  by (induction xs arbitrary: accu)
     (auto simp: dynamic_pointer_cast_def transform_def getPointCloud_def)

lemma accumulate_loop_error:
  "accumulate_loop vs accu = Inl e \<Longrightarrow> e = BadMeasurementType"
  by (induction vs arbitrary: accu) (auto split: option.splits)

lemma accumulate_loop_fails_iff:
  "isl (accumulate_loop vs accu) \<longleftrightarrow>
     (\<exists>v \<in> set vs. dynamic_pointer_cast (measurement v) = None)"
  by (induction vs arbitrary: accu) (auto split: option.splits)

text \<open>
  C6: \<open>getAccumulatedCloud\<close> fails with \<open>BadMeasurementType\<close> if and only if some
  vertex of the list carries a measurement that is not a point cloud, and it fails in
  no other way. On a list of point-cloud vertices (each given by its corrected pose and
  its point-cloud measurement) it returns the concatenation, from the last vertex to
  the first, of each cloud transformed by \<open>corrected_pose * sensor_pose\<close>.
\<close>

theorem getAccumulatedCloud_fails_iff:
  "(getAccumulatedCloud vertices = Inl BadMeasurementType \<longleftrightarrow>
      (\<exists>v \<in> set vertices. dynamic_pointer_cast (measurement v) = None)) \<and>
   (\<forall>e. getAccumulatedCloud vertices = Inl e \<longrightarrow> e = BadMeasurementType) \<and>
   (vertices =
      map (\<lambda>(pose, p). \<lparr> corrected_pose = pose, measurement = IsPointCloud p \<rparr>) xs \<longrightarrow>
    getAccumulatedCloud vertices =
      Inr (concat (map (\<lambda>(pose, p). transformPointCloud (mPointCloud p) (pose * mSensorPose p))
             (rev xs))))"
proof (intro conjI allI impI)
  show "getAccumulatedCloud vertices = Inl BadMeasurementType \<longleftrightarrow>
      (\<exists>v \<in> set vertices. dynamic_pointer_cast (measurement v) = None)"
    using accumulate_loop_fails_iff [of "rev vertices" "[]"]
      accumulate_loop_error [of "rev vertices" "[]"]
    unfolding getAccumulatedCloud_def
    by (cases "accumulate_loop (rev vertices) []") auto
next
  fix e
  assume "getAccumulatedCloud vertices = Inl e"
  then show "e = BadMeasurementType"
    unfolding getAccumulatedCloud_def by (rule accumulate_loop_error)
next
  assume "vertices =
    map (\<lambda>(pose, p). \<lparr> corrected_pose = pose, measurement = IsPointCloud p \<rparr>) xs"
  then show "getAccumulatedCloud vertices =
      Inr (concat (map (\<lambda>(pose, p). transformPointCloud (mPointCloud p) (pose * mSensorPose p))
             (rev xs)))"
    using accumulate_loop_point_clouds [of "rev xs" "[]"]
    by (simp add: getAccumulatedCloud_def rev_map)
qed

lemma mount_squared_origin: "transformPoint (mount * mount) (Vec3 0 0 0) = Vec3 1 1 0"
  by (simp add: transformPoint_def mount_def times_Transform_def)

theorem getAccumulatedCloud_fails_iff_witness:
  "getAccumulatedCloud [\<lparr> corrected_pose = mount, measurement = IsPointCloud scan \<rparr>] =
     Inr (replicate 100 (Vec3 1 1 0)) \<and>
   getAccumulatedCloud [\<lparr> corrected_pose = mount, measurement = IsPointCloud scan \<rparr>,
                        \<lparr> corrected_pose = 1, measurement = NotPointCloud 1 \<rparr>] =
     Inl BadMeasurementType"
proof
  show "getAccumulatedCloud [\<lparr> corrected_pose = mount, measurement = IsPointCloud scan \<rparr>] =
     Inr (replicate 100 (Vec3 1 1 0))"
    using getAccumulatedCloud_fails_iff
      [of "[\<lparr> corrected_pose = mount, measurement = IsPointCloud scan \<rparr>]" "[(mount, scan)]"]
    by (simp add: transformPointCloud_def scan_def mount_squared_origin)
next
  show "getAccumulatedCloud [\<lparr> corrected_pose = mount, measurement = IsPointCloud scan \<rparr>,
                        \<lparr> corrected_pose = 1, measurement = NotPointCloud 1 \<rparr>] =
     Inl BadMeasurementType"
    using getAccumulatedCloud_fails_iff
      [of "[\<lparr> corrected_pose = mount, measurement = IsPointCloud scan \<rparr>,
            \<lparr> corrected_pose = 1, measurement = NotPointCloud 1 \<rparr>]" "[]"]
    by (simp add: dynamic_pointer_cast_def)
qed

text \<open>
  C7: for two vertices \<open>A\<close> and \<open>B\<close> that carry point clouds, accumulating the list
  \<open>[A, B]\<close> and accumulating the list \<open>[B, A]\<close> both succeed, and the two clouds hold
  the same points with the same multiplicities.
\<close>

theorem getAccumulatedCloud_order_independent:
  assumes "measurement A = IsPointCloud a" and "measurement B = IsPointCloud b"
  shows "\<exists>ab ba. getAccumulatedCloud [A, B] = Inr ab \<and> getAccumulatedCloud [B, A] = Inr ba \<and>
           mset ab = mset ba"
  using assms
  by (simp add: getAccumulatedCloud_def dynamic_pointer_cast_def)

theorem getAccumulatedCloud_order_independent_witness:
  "\<exists>ab ba.
     getAccumulatedCloud [\<lparr> corrected_pose = mount, measurement = IsPointCloud scan \<rparr>,
                          \<lparr> corrected_pose = 1, measurement = IsPointCloud scan \<rparr>] = Inr ab \<and>
     getAccumulatedCloud [\<lparr> corrected_pose = 1, measurement = IsPointCloud scan \<rparr>,
                          \<lparr> corrected_pose = mount, measurement = IsPointCloud scan \<rparr>] = Inr ba \<and>
     mset ab = mset ba"
  using getAccumulatedCloud_order_independent
    [of "\<lparr> corrected_pose = mount, measurement = IsPointCloud scan \<rparr>" scan
        "\<lparr> corrected_pose = 1, measurement = IsPointCloud scan \<rparr>" scan]
  by simp

text \<open>
  C9: on a vertex list in which every measurement is a point cloud, the accumulation
  succeeds with some cloud \<open>accu\<close>, and \<open>buildMap\<close> returns exactly the downsampling,
  with leaf \<open>mMapResolution\<close>, of the outlier removal, with \<open>mMapOutlierRadius\<close> and
  \<open>mMapOutlierNeighbors\<close>, of \<open>accu\<close>.
\<close>

theorem buildMap_composition:
  assumes "\<forall>v \<in> set vertices. dynamic_pointer_cast (measurement v) \<noteq> None"
  shows "\<exists>accu. getAccumulatedCloud vertices = Inr accu \<and>
           buildMap pcl sensor vertices =
             Inr (downsample pcl
                    (removeOutliers pcl accu (mMapOutlierRadius sensor)
                       (mMapOutlierNeighbors sensor))
                    (mMapResolution sensor))"
proof -
  have "\<not> isl (getAccumulatedCloud vertices)"
    using assms accumulate_loop_fails_iff [of "rev vertices" "[]"]
    by (simp add: getAccumulatedCloud_def)
  then obtain accu where "getAccumulatedCloud vertices = Inr accu"
    by (cases "getAccumulatedCloud vertices") auto
  then show ?thesis by (simp add: buildMap_def)
qed

theorem buildMap_composition_witness:
  "\<exists>accu.
     getAccumulatedCloud [\<lparr> corrected_pose = mount, measurement = IsPointCloud scan \<rparr>] =
       Inr accu \<and>
     buildMap (example_pcl False) example_sensor
         [\<lparr> corrected_pose = mount, measurement = IsPointCloud scan \<rparr>] =
       Inr (downsample (example_pcl False)
              (removeOutliers (example_pcl False) accu (mMapOutlierRadius example_sensor)
                 (mMapOutlierNeighbors example_sensor))
              (mMapResolution example_sensor))"
  using buildMap_composition
    [of "[\<lparr> corrected_pose = mount, measurement = IsPointCloud scan \<rparr>]"
        "example_pcl False" example_sensor]
  by (simp add: dynamic_pointer_cast_def)

section \<open>Properties of scan registration\<close>

lemma align_unfold:
  "align pcl source target guess config =
     (if length (getPointCloud target) < 100 \<or> length (getPointCloud source) < 100
      then Inl (NoMatch TooFewPoints)
      else if registration_algorithm config = GICP
      then doICP pcl (getPointCloud source) (getPointCloud target) guess config
      else doNDT pcl (getPointCloud source) (getPointCloud target) guess config)"
  by (simp add: align_def Let_def)

lemma doICP_unfold:
  "doICP pcl source target guess config =
     (let aligned = gicp_align pcl (fst (doICP_setup pcl source target guess config))
                      (snd (doICP_setup pcl source target guess config));
          score = getFitnessScore aligned (max_correspondence_distance config)
      in if \<not> hasConverged aligned \<or> score > max_fitness_score config
         then Inl (NoMatch (ICP_failed score (max_fitness_score config)))
         else Inr (if pcl_before_1_8_1 pcl then getFinalTransformation aligned * guess
                   else getFinalTransformation aligned))"
  by (simp add: doICP_def Let_def split_beta)

lemma doNDT_unfold:
  "doNDT pcl source target guess config =
     (let aligned = ndt_align pcl (fst (doNDT_setup source target guess config))
                      (snd (doNDT_setup source target guess config));
          score = getFitnessScore aligned (max_correspondence_distance config)
      in if \<not> hasConverged aligned \<or> score > max_fitness_score config
         then Inl (NoMatch (NDT_failed score (max_fitness_score config)))
         else Inr (getFinalTransformation aligned))"
  by (simp add: doNDT_def Let_def split_beta)

lemma createConstraint_point_clouds:
  "createConstraint pcl sensor (IsPointCloud src) (IsPointCloud tgt) odometry loop =
     (case (if loop
            then align pcl src tgt (inverse (mSensorPose src) * odometry * mSensorPose tgt)
                   (mCoarseConfiguration sensor)
            else Inr (inverse (mSensorPose src) * odometry * mSensorPose tgt)) of
        Inl e \<Rightarrow> Inl e
      | Inr guess \<Rightarrow>
          (case align pcl src tgt guess (mFineConfiguration sensor) of
             Inl e \<Rightarrow> Inl e
           | Inr icp_result \<Rightarrow>
               Inr (SE3Constraint (mName sensor)
                      (mSensorPose src * icp_result * inverse (mSensorPose tgt))
                      (mat_inverse
                         (scalar_mult (identity_matrix 6) (mCovarianceScale sensor))))))"
  by (simp add: createConstraint_def dynamic_pointer_cast_def getSensorPose_def
      getInverseSensorPose_def Let_def split: sum.splits)

lemma createConstraint_not_point_cloud:
  "dynamic_pointer_cast source = None \<or> dynamic_pointer_cast target = None \<Longrightarrow>
   createConstraint pcl sensor source target odometry loop = Inl BadMeasurementType"
  by (auto simp: createConstraint_def Let_def split: option.splits)

lemma transform_one_left: "(1::Transform) * g = g"
proof (cases g)
  case (Transform m t)
  then show ?thesis
    by (cases m rule: transpose3.cases; cases t)
       (simp add: times_Transform_def one_Transform_def identity3_def)
qed

lemma align_example:
  "align (example_pcl before) scan scan g (example_config alg d) = Inr g"
  by (cases before)
     (simp_all add: align_unfold doICP_unfold doNDT_unfold example_pcl_def scan_def
        getPointCloud_def example_config_def converged_at_def doICP_setup_def doNDT_setup_def
        transform_one_left Let_def)

lemma scan_pose: "mSensorPose scan = mount"
  by (simp add: scan_def)

lemma example_sensor_fields:
  "mFineConfiguration example_sensor = example_config GICP 0"
  "mCoarseConfiguration example_sensor = example_config NDT 1"
  "mCovarianceScale example_sensor = 2"
  "mName example_sensor = ''laser''"
  by (simp_all add: example_sensor_def)

text \<open>
  C1: for point-cloud measurements \<open>src\<close> and \<open>tgt\<close>, every odometry guess and every
  loop flag, with \<open>g = inverse (sensor pose of src) * odometry * (sensor pose of tgt)\<close>:
  if \<open>createConstraint\<close> returns a constraint, then the fine alignment was started from
  \<open>g_start\<close> and returned some \<open>g_fine\<close>, where \<open>g_start\<close> is the result of the coarse
  alignment from \<open>g\<close> when the loop flag is set and \<open>g\<close> itself when it is not, and the
  constraint's transform is \<open>(sensor pose of src) * g_fine * inverse (sensor pose of tgt)\<close>;
  conversely, whenever these alignments succeed, \<open>createConstraint\<close> returns such a
  constraint. Without the loop flag the coarse configuration has no influence on the
  result.
\<close>

theorem createConstraint_frames:
  "(createConstraint pcl sensor (IsPointCloud src) (IsPointCloud tgt) odometry loop = Inr c \<longrightarrow>
      (\<exists>g_start g_fine.
         (if loop
          then align pcl src tgt (inverse (mSensorPose src) * odometry * mSensorPose tgt)
                 (mCoarseConfiguration sensor) = Inr g_start
          else g_start = inverse (mSensorPose src) * odometry * mSensorPose tgt) \<and>
         align pcl src tgt g_start (mFineConfiguration sensor) = Inr g_fine \<and>
         constraint_transform c = mSensorPose src * g_fine * inverse (mSensorPose tgt))) \<and>
   ((if loop
     then align pcl src tgt (inverse (mSensorPose src) * odometry * mSensorPose tgt)
            (mCoarseConfiguration sensor) = Inr g_start
     else g_start = inverse (mSensorPose src) * odometry * mSensorPose tgt) \<and>
    align pcl src tgt g_start (mFineConfiguration sensor) = Inr g_fine \<longrightarrow>
      (\<exists>c'. createConstraint pcl sensor (IsPointCloud src) (IsPointCloud tgt) odometry loop =
              Inr c' \<and>
            constraint_transform c' = mSensorPose src * g_fine * inverse (mSensorPose tgt))) \<and>
   createConstraint pcl (sensor\<lparr> mCoarseConfiguration := other \<rparr>)
       (IsPointCloud src) (IsPointCloud tgt) odometry False =
     createConstraint pcl sensor (IsPointCloud src) (IsPointCloud tgt) odometry False"
  by (auto simp: createConstraint_point_clouds split: sum.splits if_splits)

lemma sideways_in_sensor_frame:
  "inverse mount * Transform identity3 (Vec3 0 1 0) * mount = Transform identity3 (Vec3 1 0 0)"
  by (simp add: mount_def inverse_Transform_def times_Transform_def identity3_def)

lemma sideways_in_robot_frame:
  "mount * Transform identity3 (Vec3 1 0 0) * inverse mount = Transform identity3 (Vec3 0 1 0)"
  by (simp add: mount_def inverse_Transform_def times_Transform_def identity3_def)

theorem createConstraint_frames_witness:
  "\<exists>c'. createConstraint (example_pcl False) example_sensor (IsPointCloud scan)
           (IsPointCloud scan) (Transform identity3 (Vec3 0 1 0)) True = Inr c' \<and>
         constraint_transform c' = Transform identity3 (Vec3 0 1 0)"
proof -
  have coarse: "align (example_pcl False) scan scan
      (inverse (mSensorPose scan) * Transform identity3 (Vec3 0 1 0) * mSensorPose scan)
      (mCoarseConfiguration example_sensor) = Inr (Transform identity3 (Vec3 1 0 0))"
    by (simp add: align_example example_sensor_fields scan_pose sideways_in_sensor_frame)
  have fine: "align (example_pcl False) scan scan (Transform identity3 (Vec3 1 0 0))
      (mFineConfiguration example_sensor) = Inr (Transform identity3 (Vec3 1 0 0))"
    by (simp add: align_example example_sensor_fields)
  show ?thesis
    using coarse fine sideways_in_robot_frame
      createConstraint_frames
        [of "example_pcl False" example_sensor scan scan "Transform identity3 (Vec3 0 1 0)" True
          _ "Transform identity3 (Vec3 1 0 0)" "Transform identity3 (Vec3 1 0 0)"]
    by (simp add: scan_pose)
qed

lemma align_density_unused:
  "align pcl source target guess config =
     align pcl source target guess (config\<lparr> point_cloud_density := density \<rparr>)"
  by (simp add: align_unfold doICP_unfold doNDT_unfold doICP_setup_def doNDT_setup_def Let_def)

text \<open>
  C2 (evaluation of the code): with \<open>point_cloud_density = 1\<close> and two clouds of 100
  points at the origin, downsampling leaves one point per cloud, yet \<open>align\<close> does not
  fail with too few points: it registers the unfiltered clouds and returns the
  transform. In general the result of \<open>align\<close> does not depend on
  \<open>point_cloud_density\<close> at all.
\<close>

theorem align_registers_unfiltered_clouds:
  "point_cloud_density (example_config GICP 1) > 0 \<and>
   length (downsample (example_pcl False) (getPointCloud scan)
             (point_cloud_density (example_config GICP 1))) = 1 \<and>
   align (example_pcl False) scan scan mount (example_config GICP 1) = Inr mount"
  by (simp add: align_example)
     (simp add: downsample_def example_pcl_def scan_def getPointCloud_def example_config_def)

text \<open>
  C3: \<open>align\<close> fails exactly when the target or the source cloud handed to the
  registration has fewer than 100 points, or the library run does not report
  convergence, or its fitness score exceeds \<open>max_fitness_score\<close>; every failure is a
  \<open>NoMatch\<close>; and when both clouds have at least 100 points and the run converges
  with a fitness score of at most \<open>max_fitness_score\<close>, \<open>align\<close> returns a transform.
\<close>

theorem align_NoMatch_iff:
  "(isl (align pcl source target guess config) \<longleftrightarrow>
      length (getPointCloud target) < 100 \<or> length (getPointCloud source) < 100 \<or>
      \<not> hasConverged
          (registration_run pcl (getPointCloud source) (getPointCloud target) guess config) \<or>
      getFitnessScore
          (registration_run pcl (getPointCloud source) (getPointCloud target) guess config)
          (max_correspondence_distance config) > max_fitness_score config) \<and>
   (\<forall>e. align pcl source target guess config = Inl e \<longrightarrow> (\<exists>reason. e = NoMatch reason)) \<and>
   (100 \<le> length (getPointCloud target) \<and> 100 \<le> length (getPointCloud source) \<and>
    hasConverged
      (registration_run pcl (getPointCloud source) (getPointCloud target) guess config) \<and>
    getFitnessScore
      (registration_run pcl (getPointCloud source) (getPointCloud target) guess config)
      (max_correspondence_distance config) \<le> max_fitness_score config \<longrightarrow>
    (\<exists>T. align pcl source target guess config = Inr T))"
  by (auto simp: align_unfold doICP_unfold doNDT_unfold registration_run_def Let_def)

lemma example_run:
  "registration_run (example_pcl before) source target guess config =
     converged_at (if before \<and> registration_algorithm config = GICP then 1 else guess)"
  by (simp add: registration_run_def example_pcl_def doICP_setup_def doNDT_setup_def Let_def)

lemma failing_run:
  "hasConverged (registration_run failing_pcl source target guess config) = False"
  by (simp add: registration_run_def failing_pcl_def example_pcl_def converged_at_def)

lemma scan_length: "length (getPointCloud scan) = 100"
  by (simp add: getPointCloud_def scan_def)

theorem align_NoMatch_iff_witness:
  "(\<exists>T. align (example_pcl False) scan scan mount (example_config GICP 0) = Inr T) \<and>
   (\<exists>reason. align failing_pcl scan scan mount (example_config NDT 0) = Inl (NoMatch reason))"
proof
  show "\<exists>T. align (example_pcl False) scan scan mount (example_config GICP 0) = Inr T"
    using align_NoMatch_iff [of "example_pcl False" scan scan mount "example_config GICP 0"]
    by (simp add: example_run scan_length converged_at_def example_config_def)
next
  have "isl (align failing_pcl scan scan mount (example_config NDT 0))"
    using align_NoMatch_iff [of failing_pcl scan scan mount "example_config NDT 0"]
    by (simp add: failing_run)
  then obtain e where "align failing_pcl scan scan mount (example_config NDT 0) = Inl e"
    by (cases "align failing_pcl scan scan mount (example_config NDT 0)") auto
  then show "\<exists>reason.
      align failing_pcl scan scan mount (example_config NDT 0) = Inl (NoMatch reason)"
    using align_NoMatch_iff [of failing_pcl scan scan mount "example_config NDT 0"]
    by auto
qed

subsection \<open>The matrix attached to a constraint\<close>

lemma upt6: "[0..<6] = [0, Suc 0, 2, 3, 4, 5]"
  by code_simp

lemma upt_from:
  "[Suc 0..<6] = [Suc 0, 2, 3, 4, 5]" "[Suc (Suc 0)..<6] = [2, 3, 4, 5]"
  "[Suc 2..<6] = [3, 4, 5]" "[Suc 3..<6] = [4, 5]" "[Suc 4..<6] = [5]" "[Suc 5..<6] = []"
  by code_simp+

lemma scaled_identity6:
  "scalar_mult (identity_matrix 6) s =
     [[s, 0, 0, 0, 0, 0], [0, s, 0, 0, 0, 0], [0, 0, s, 0, 0, 0],
      [0, 0, 0, s, 0, 0], [0, 0, 0, 0, s, 0], [0, 0, 0, 0, 0, s]]"
  by (simp add: scalar_mult_def identity_matrix_def upt6)

lemma identity6:
  "identity_matrix 6 =
     [[1, 0, 0, 0, 0, 0], [0, 1, 0, 0, 0, 0], [0, 0, 1, 0, 0, 0],
      [0, 0, 0, 1, 0, 0], [0, 0, 0, 0, 1, 0], [0, 0, 0, 0, 0, 1]]"
  by (simp add: identity_matrix_def upt6)

text \<open>
  One elimination step on a diagonal matrix extended by a diagonal matrix: the pivot
  of column \<open>k\<close> is the diagonal entry, the row is divided by it, and no other row
  changes.
\<close>

lemma eliminate_diagonal:
  assumes "d0 \<noteq> 0" "d1 \<noteq> 0" "d2 \<noteq> 0" "d3 \<noteq> 0" "d4 \<noteq> 0" "d5 \<noteq> 0"
    and "k \<in> {0, Suc 0, 2, 3, 4, 5}"
  shows "eliminate
     [[d0, 0, 0, 0, 0, 0, e0, 0, 0, 0, 0, 0], [0, d1, 0, 0, 0, 0, 0, e1, 0, 0, 0, 0],
      [0, 0, d2, 0, 0, 0, 0, 0, e2, 0, 0, 0], [0, 0, 0, d3, 0, 0, 0, 0, 0, e3, 0, 0],
      [0, 0, 0, 0, d4, 0, 0, 0, 0, 0, e4, 0], [0, 0, 0, 0, 0, d5, 0, 0, 0, 0, 0, e5]] k =
     [[if k = 0 then 1 else d0, 0, 0, 0, 0, 0, if k = 0 then e0 / d0 else e0, 0, 0, 0, 0, 0],
      [0, if k = 1 then 1 else d1, 0, 0, 0, 0, 0, if k = 1 then e1 / d1 else e1, 0, 0, 0, 0],
      [0, 0, if k = 2 then 1 else d2, 0, 0, 0, 0, 0, if k = 2 then e2 / d2 else e2, 0, 0, 0],
      [0, 0, 0, if k = 3 then 1 else d3, 0, 0, 0, 0, 0, if k = 3 then e3 / d3 else e3, 0, 0],
      [0, 0, 0, 0, if k = 4 then 1 else d4, 0, 0, 0, 0, 0, if k = 4 then e4 / d4 else e4, 0],
      [0, 0, 0, 0, 0, if k = 5 then 1 else d5, 0, 0, 0, 0, 0, if k = 5 then e5 / d5 else e5]]"
  using assms
  by (auto simp: eliminate_def pivot_index_def upt_from upt6 Let_def)

lemma mat_inverse_diagonal6:
  assumes "s \<noteq> 0"
  shows "mat_inverse
     [[s, 0, 0, 0, 0, 0], [0, s, 0, 0, 0, 0], [0, 0, s, 0, 0, 0],
      [0, 0, 0, s, 0, 0], [0, 0, 0, 0, s, 0], [0, 0, 0, 0, 0, s]] =
     [[1 / s, 0, 0, 0, 0, 0], [0, 1 / s, 0, 0, 0, 0], [0, 0, 1 / s, 0, 0, 0],
      [0, 0, 0, 1 / s, 0, 0], [0, 0, 0, 0, 1 / s, 0], [0, 0, 0, 0, 0, 1 / s]]"
proof -
  have len: "length [[s, 0, 0, 0, 0, 0], [0, s, 0, 0, 0, 0], [0, 0, s, 0, 0, 0],
      [0, 0, 0, s, 0, 0], [0, 0, 0, 0, s, 0], [0, 0, 0, 0, 0, s]] = 6"
    by simp
  show ?thesis
    unfolding mat_inverse_def Let_def len identity6 upt6
    using assms by (simp add: eliminate_diagonal)
qed

lemma mat_inverse_scaled_identity:
  assumes "s \<noteq> 0"
  shows "mat_inverse (scalar_mult (identity_matrix 6) s) =
           scalar_mult (identity_matrix 6) (1 / s)"
  using assms by (simp add: scaled_identity6 mat_inverse_diagonal6)

lemma createConstraint_example:
  "createConstraint (example_pcl False) example_sensor (IsPointCloud scan) (IsPointCloud scan)
       1 False =
     Inr (SE3Constraint ''laser'' 1 (scalar_mult (identity_matrix 6) (1 / 2)))"
proof -
  have g: "inverse mount * 1 * mount = 1"
    by (simp add: mount_def inverse_Transform_def times_Transform_def one_Transform_def
        identity3_def)
  have t: "mount * 1 * inverse mount = 1"
    by (simp add: mount_def inverse_Transform_def times_Transform_def one_Transform_def
        identity3_def)
  have m: "mat_inverse (scalar_mult (identity_matrix 6) 2) =
      scalar_mult (identity_matrix 6) (1 / 2)"
    by (rule mat_inverse_scaled_identity) simp
  show ?thesis
    unfolding createConstraint_point_clouds
    by (simp add: scan_pose g t m align_example example_sensor_fields)
qed

text \<open>
  C4 as stated fails: with \<open>mCovarianceScale = 2\<close> the matrix attached to the returned
  constraint has \<open>1 / 2\<close> on its diagonal, which is not the identity scaled by 2.
\<close>

theorem constraint_matrix_is_not_scaled_identity:
  "createConstraint (example_pcl False) example_sensor (IsPointCloud scan) (IsPointCloud scan)
       1 False =
     Inr (SE3Constraint ''laser'' 1 (scalar_mult (identity_matrix 6) (1 / 2))) \<and>
   constraint_matrix (SE3Constraint ''laser'' 1 (scalar_mult (identity_matrix 6) (1 / 2))) \<noteq>
     scalar_mult (identity_matrix 6) (mCovarianceScale example_sensor)"
  by (simp add: createConstraint_example scaled_identity6 example_sensor_fields)

text \<open>
  C4 (amended): \<open>createConstraint\<close> forms the covariance as the 6x6 identity scaled by
  \<open>mCovarianceScale\<close> and inverts it itself: the matrix attached to every returned
  constraint is the inverse of that covariance, and for a scale other than zero it is
  the 6x6 identity scaled by \<open>1 / mCovarianceScale\<close>.
\<close>

theorem constraint_matrix_is_inverse_covariance:
  assumes "createConstraint pcl sensor source target odometry loop = Inr c"
  shows "constraint_matrix c =
           mat_inverse (scalar_mult (identity_matrix 6) (mCovarianceScale sensor)) \<and>
         (mCovarianceScale sensor \<noteq> 0 \<longrightarrow>
            constraint_matrix c =
              scalar_mult (identity_matrix 6) (1 / mCovarianceScale sensor))"
proof -
  have "constraint_matrix c =
      mat_inverse (scalar_mult (identity_matrix 6) (mCovarianceScale sensor))"
    using assms
    by (auto simp: createConstraint_def Let_def split: option.splits sum.splits if_splits)
  then show ?thesis by (simp add: mat_inverse_scaled_identity)
qed

theorem constraint_matrix_is_inverse_covariance_witness:
  "constraint_matrix (SE3Constraint ''laser'' 1 (scalar_mult (identity_matrix 6) (1 / 2))) =
     mat_inverse (scalar_mult (identity_matrix 6) (mCovarianceScale example_sensor)) \<and>
   mCovarianceScale example_sensor \<noteq> 0 \<and>
   constraint_matrix (SE3Constraint ''laser'' 1 (scalar_mult (identity_matrix 6) (1 / 2))) =
     scalar_mult (identity_matrix 6) (1 / mCovarianceScale example_sensor)"
  using constraint_matrix_is_inverse_covariance [OF createConstraint_example]
  by (simp add: example_sensor_fields)

subsection \<open>The roles of the clouds in the library call\<close>

text \<open>
  C5 as stated fails for GICP built against PCL before 1.8.1: the cloud set as the
  library's source input is the target cloud moved by the guess, which differs from the
  target cloud itself whenever the guess moves a point.
\<close>

theorem gicp_source_input_is_shifted_target:
  "gicp_InputSource (fst (doICP_setup (example_pcl True) [Vec3 0 0 0] [Vec3 0 0 0] mount
       (example_config GICP 0))) = [Vec3 1 0 0] \<and>
   [Vec3 1 0 0] \<noteq> [Vec3 0 0 0]"
  by (simp add: doICP_setup_def example_pcl_def transformPointCloud_def transformPoint_def
      mount_def)

lemma transformPoint_times:
  "transformPoint (a * b) p = transformPoint a (transformPoint b p)"
proof (cases a)
  case A: (Transform ma ta)
  show ?thesis
  proof (cases b)
    case B: (Transform mb tb)
    show ?thesis
      unfolding A B
      by (cases ma rule: transpose3.cases; cases mb rule: transpose3.cases; cases ta; cases tb;
          cases p)
         (simp add: transformPoint_def times_Transform_def algebra_simps)
  qed
qed

lemma transformPointCloud_times:
  "transformPointCloud cloud (a * b) = transformPointCloud (transformPointCloud cloud b) a"
  by (simp add: transformPointCloud_def transformPoint_times)

lemma example_doICP:
  "doICP (example_pcl before) source target guess (example_config alg d) = Inr guess"
  by (cases before)
     (simp_all add: doICP_unfold example_pcl_def example_config_def converged_at_def
        doICP_setup_def transform_one_left Let_def)

lemma example_doNDT:
  "doNDT (example_pcl before) source target guess (example_config alg d) = Inr guess"
  by (simp add: doNDT_unfold example_pcl_def example_config_def converged_at_def
      doNDT_setup_def Let_def)

text \<open>
  C5 (amended): in every registration run (GICP and NDT alike) the cloud passed as the
  library's target input is the pose-graph source cloud, and the cloud passed as the
  library's source input is the pose-graph target cloud: unchanged and together with
  the guess for NDT and for GICP built against PCL 1.8.1 or later; transformed by the
  guess for GICP built against an older PCL, where the library is started from the
  identity and the guess is multiplied onto its final transformation. \<open>doICP\<close> and
  \<open>doNDT\<close> return that transform when the run passes the gate. In both builds, when
  the library's final transformation maps its source input onto its target input, the
  returned transform maps the pose-graph target cloud onto the pose-graph source cloud:
  it is the transform of the pose-graph edge from source to target.
\<close>

theorem registration_inputs_swapped:
  "gicp_InputTarget (fst (doICP_setup pcl source target guess config)) = source \<and>
   gicp_InputSource (fst (doICP_setup pcl source target guess config)) =
     (if pcl_before_1_8_1 pcl then transformPointCloud target guess else target) \<and>
   snd (doICP_setup pcl source target guess config) =
     (if pcl_before_1_8_1 pcl then 1 else guess) \<and>
   ndt_InputTarget (fst (doNDT_setup source target guess config)) = source \<and>
   ndt_InputSource (fst (doNDT_setup source target guess config)) = target \<and>
   snd (doNDT_setup source target guess config) = guess \<and>
   doICP pcl source target guess config =
     (let aligned = gicp_align pcl (fst (doICP_setup pcl source target guess config))
                      (snd (doICP_setup pcl source target guess config));
          score = getFitnessScore aligned (max_correspondence_distance config)
      in if \<not> hasConverged aligned \<or> score > max_fitness_score config
         then Inl (NoMatch (ICP_failed score (max_fitness_score config)))
         else Inr (if pcl_before_1_8_1 pcl then getFinalTransformation aligned * guess
                   else getFinalTransformation aligned)) \<and>
   doNDT pcl source target guess config =
     (let aligned = ndt_align pcl (fst (doNDT_setup source target guess config))
                      (snd (doNDT_setup source target guess config));
          score = getFitnessScore aligned (max_correspondence_distance config)
      in if \<not> hasConverged aligned \<or> score > max_fitness_score config
         then Inl (NoMatch (NDT_failed score (max_fitness_score config)))
         else Inr (getFinalTransformation aligned)) \<and>
   (doICP pcl source target guess config = Inr T \<and>
    transformPointCloud (gicp_InputSource (fst (doICP_setup pcl source target guess config)))
      (getFinalTransformation
         (gicp_align pcl (fst (doICP_setup pcl source target guess config))
            (snd (doICP_setup pcl source target guess config)))) =
      gicp_InputTarget (fst (doICP_setup pcl source target guess config)) \<longrightarrow>
    transformPointCloud target T = source) \<and>
   (doNDT pcl source target guess config = Inr T \<and>
    transformPointCloud (ndt_InputSource (fst (doNDT_setup source target guess config)))
      (getFinalTransformation
         (ndt_align pcl (fst (doNDT_setup source target guess config))
            (snd (doNDT_setup source target guess config)))) =
      ndt_InputTarget (fst (doNDT_setup source target guess config)) \<longrightarrow>
    transformPointCloud target T = source)"
proof -
  have roles:
    "gicp_InputTarget (fst (doICP_setup pcl source target guess config)) = source"
    "gicp_InputSource (fst (doICP_setup pcl source target guess config)) =
       (if pcl_before_1_8_1 pcl then transformPointCloud target guess else target)"
    "snd (doICP_setup pcl source target guess config) =
       (if pcl_before_1_8_1 pcl then 1 else guess)"
    "ndt_InputTarget (fst (doNDT_setup source target guess config)) = source"
    "ndt_InputSource (fst (doNDT_setup source target guess config)) = target"
    "snd (doNDT_setup source target guess config) = guess"
    by (simp_all add: doICP_setup_def doNDT_setup_def Let_def)
  have icp: "doICP pcl source target guess config = Inr T \<Longrightarrow>
    transformPointCloud (gicp_InputSource (fst (doICP_setup pcl source target guess config)))
      (getFinalTransformation
         (gicp_align pcl (fst (doICP_setup pcl source target guess config))
            (snd (doICP_setup pcl source target guess config)))) =
      gicp_InputTarget (fst (doICP_setup pcl source target guess config)) \<Longrightarrow>
    transformPointCloud target T = source"
    unfolding doICP_unfold roles
    by (auto simp: Let_def transformPointCloud_times split: if_splits)
  have ndt: "doNDT pcl source target guess config = Inr T \<Longrightarrow>
    transformPointCloud (ndt_InputSource (fst (doNDT_setup source target guess config)))
      (getFinalTransformation
         (ndt_align pcl (fst (doNDT_setup source target guess config))
            (snd (doNDT_setup source target guess config)))) =
      ndt_InputTarget (fst (doNDT_setup source target guess config)) \<Longrightarrow>
    transformPointCloud target T = source"
    unfolding doNDT_unfold roles
    by (auto simp: Let_def split: if_splits)
  show ?thesis
    using roles icp ndt doICP_unfold [of pcl source target guess config]
      doNDT_unfold [of pcl source target guess config]
    by blast
qed

theorem registration_inputs_swapped_witness:
  "doICP (example_pcl True) [Vec3 1 0 0] [Vec3 0 0 0] mount (example_config GICP 0) =
     Inr mount \<and>
   doICP (example_pcl False) [Vec3 1 0 0] [Vec3 0 0 0] mount (example_config GICP 0) =
     Inr mount \<and>
   doNDT (example_pcl False) [Vec3 1 0 0] [Vec3 0 0 0] mount (example_config NDT 0) =
     Inr mount \<and>
   transformPointCloud [Vec3 0 0 0] mount = [Vec3 1 0 0]"
proof -
  have contract:
    "transformPointCloud
       (gicp_InputSource (fst (doICP_setup (example_pcl True) [Vec3 1 0 0] [Vec3 0 0 0] mount
          (example_config GICP 0))))
       (getFinalTransformation
          (gicp_align (example_pcl True)
             (fst (doICP_setup (example_pcl True) [Vec3 1 0 0] [Vec3 0 0 0] mount
                (example_config GICP 0)))
             (snd (doICP_setup (example_pcl True) [Vec3 1 0 0] [Vec3 0 0 0] mount
                (example_config GICP 0))))) =
     gicp_InputTarget (fst (doICP_setup (example_pcl True) [Vec3 1 0 0] [Vec3 0 0 0] mount
        (example_config GICP 0)))"
    by (simp add: doICP_setup_def example_pcl_def converged_at_def transformPointCloud_def
        transformPoint_def mount_def one_Transform_def identity3_def)
  have "transformPointCloud [Vec3 0 0 0] mount = [Vec3 1 0 0]"
    using contract example_doICP [of True "[Vec3 1 0 0]" "[Vec3 0 0 0]" mount GICP 0]
      registration_inputs_swapped
        [of "example_pcl True" "[Vec3 1 0 0]" "[Vec3 0 0 0]" mount "example_config GICP 0" mount]
    by blast
  then show ?thesis
    by (simp add: example_doICP example_doNDT)
qed

section \<open>Properties of the orientation prior edge\<close>

lemma quaternion_inverse_times_self:
  "qx (inverse q * q) = 0 \<and> qy (inverse q * q) = 0 \<and> qz (inverse q * q) = 0"
  by (cases q) (simp add: inverse_Quaternion_def times_Quaternion_def conjugate_def Let_def)

text \<open>
  C10: an edge constructed from a measurement \<open>m\<close> and a sensor pose \<open>s\<close> has the 3x3
  identity as information matrix; once a vertex \<open>v\<close> is attached, \<open>computeError\<close> sets
  the error to the \<open>(x, y, z)\<close> part of \<open>inverse q_exp * q_cur\<close>, where \<open>q_exp\<close> is
  the quaternion of the linear part of \<open>inverse s * m\<close> and \<open>q_cur\<close> the quaternion of
  the linear part of the vertex's estimate; the error is the zero vector whenever
  \<open>q_cur = q_exp\<close>. This holds for every quaternion \<open>m\<close>, unit or not.
\<close>

theorem orientation_prior_error:
  "e_information (new_EdgeOrientationPrior base m s) = identity3 \<and>
   e_error (computeError ((new_EdgeOrientationPrior base m s)\<lparr> e_vertex := v \<rparr>)) =
     (let q_exp = quaternion_of_matrix (linear_part (rotate_by (inverse s) m));
          q_cur = quaternion_of_matrix (linear_part (estimate v));
          err = inverse q_exp * q_cur
      in Vec3 (qx err) (qy err) (qz err)) \<and>
   (quaternion_of_matrix (linear_part (estimate v)) =
      quaternion_of_matrix (linear_part (rotate_by (inverse s) m)) \<longrightarrow>
    e_error (computeError ((new_EdgeOrientationPrior base m s)\<lparr> e_vertex := v \<rparr>)) =
      Vec3 0 0 0)"
  by (simp add: new_EdgeOrientationPrior_def computeError_def Let_def
      quaternion_inverse_times_self)

lemma half_turn_expected:
  "linear_part (rotate_by (inverse 1) (Quaternion 0 0 0 1)) =
     Mat3 (Vec3 (- 1) 0 0) (Vec3 0 (- 1) 0) (Vec3 0 0 1)"
  by (simp add: rotate_by_def inverse_Transform_def one_Transform_def identity3_def
      toRotationMatrix_def Let_def)

lemma half_turn_quaternion:
  "quaternion_of_matrix (Mat3 (Vec3 (- 1) 0 0) (Vec3 0 (- 1) 0) (Vec3 0 0 1)) =
     Quaternion 0 0 0 1"
  by (simp add: quaternion_of_matrix_def Let_def)

theorem orientation_prior_error_witness:
  "e_information (new_EdgeOrientationPrior
       \<lparr> e_measurement = Quaternion 1 0 0 0, e_information = toRotationMatrix (Quaternion 0 0 0 1),
         e_sensor_pose = mount, e_error = Vec3 7 7 7, e_vertex = \<lparr> estimate = 1 \<rparr> \<rparr>
       (Quaternion 0 0 0 1) 1) = identity3 \<and>
   e_error (computeError ((new_EdgeOrientationPrior
       \<lparr> e_measurement = Quaternion 1 0 0 0, e_information = toRotationMatrix (Quaternion 0 0 0 1),
         e_sensor_pose = mount, e_error = Vec3 7 7 7, e_vertex = \<lparr> estimate = 1 \<rparr> \<rparr>
       (Quaternion 0 0 0 1) 1)
       \<lparr> e_vertex := \<lparr> estimate = Transform (Mat3 (Vec3 (- 1) 0 0) (Vec3 0 (- 1) 0) (Vec3 0 0 1))
                                     (Vec3 5 0 0) \<rparr> \<rparr>)) =
     Vec3 0 0 0"
proof -
  have same: "quaternion_of_matrix (linear_part (estimate
        \<lparr> estimate = Transform (Mat3 (Vec3 (- 1) 0 0) (Vec3 0 (- 1) 0) (Vec3 0 0 1))
                       (Vec3 5 0 0) \<rparr>)) =
      quaternion_of_matrix (linear_part (rotate_by (inverse 1) (Quaternion 0 0 0 1)))"
    by (simp add: half_turn_expected)
  show ?thesis
    using same
      orientation_prior_error
        [of "\<lparr> e_measurement = Quaternion 1 0 0 0,
               e_information = toRotationMatrix (Quaternion 0 0 0 1),
               e_sensor_pose = mount, e_error = Vec3 7 7 7, e_vertex = \<lparr> estimate = 1 \<rparr> \<rparr>"
            "Quaternion 0 0 0 1" 1
            "\<lparr> estimate = Transform (Mat3 (Vec3 (- 1) 0 0) (Vec3 0 (- 1) 0) (Vec3 0 0 1))
                           (Vec3 5 0 0) \<rparr>"]
    by blast
qed

section \<open>Properties of the earlier sensor\<close>

text \<open>
  The earlier \<open>calculateTransform\<close>, on point-cloud measurements: when it returns, the
  transform is \<open>(sensor pose of src) * (r * g) * inverse (sensor pose of tgt)\<close>, where
  \<open>g\<close> is the guess in sensor frame and \<open>r\<close> the final transformation of the single
  GICP run, configured by the flag; the covariance is the 6x6 identity, neither scaled
  nor inverted.
\<close>

theorem calculateTransform_frames:
  assumes "calculateTransform pcl sensor (IsPointCloud src) (IsPointCloud tgt) odometry coarse =
             Inr twc"
  shows "twc_transform twc =
           mSensorPose src *
             (getFinalTransformation
                (gicp_align pcl
                   (calculateTransform_setup pcl src tgt
                      (inverse (mSensorPose src) * odometry * mSensorPose tgt)
                      (if coarse then mCoarseConfiguration sensor
                       else mFineConfiguration sensor)) 1) *
              (inverse (mSensorPose src) * odometry * mSensorPose tgt)) *
             inverse (mSensorPose tgt) \<and>
         twc_covariance twc = identity_matrix 6"
  using assms
  by (auto simp: calculateTransform_def dynamic_pointer_cast_def getSensorPose_def
      getInverseSensorPose_def Let_def split: if_splits)

lemma calculateTransform_example:
  "calculateTransform (example_pcl True) example_sensor (IsPointCloud scan) (IsPointCloud scan)
       (Transform identity3 (Vec3 0 1 0)) False =
     Inr \<lparr> twc_transform = Transform identity3 (Vec3 0 1 0),
           twc_covariance = identity_matrix 6 \<rparr>"
  by (simp add: calculateTransform_def dynamic_pointer_cast_def getSensorPose_def
      getInverseSensorPose_def Let_def example_pcl_def converged_at_def scan_pose
      example_sensor_fields example_config_def sideways_in_sensor_frame transform_one_left
      sideways_in_robot_frame)

theorem calculateTransform_frames_witness:
  "twc_transform
     \<lparr> twc_transform = Transform identity3 (Vec3 0 1 0), twc_covariance = identity_matrix 6 \<rparr> =
     mSensorPose scan *
       (getFinalTransformation
          (gicp_align (example_pcl True)
             (calculateTransform_setup (example_pcl True) scan scan
                (inverse (mSensorPose scan) * Transform identity3 (Vec3 0 1 0) * mSensorPose scan)
                (if False then mCoarseConfiguration example_sensor
                 else mFineConfiguration example_sensor)) 1) *
        (inverse (mSensorPose scan) * Transform identity3 (Vec3 0 1 0) * mSensorPose scan)) *
       inverse (mSensorPose scan) \<and>
   twc_covariance
     \<lparr> twc_transform = Transform identity3 (Vec3 0 1 0), twc_covariance = identity_matrix 6 \<rparr> =
     identity_matrix 6"
  using calculateTransform_frames [OF calculateTransform_example]
  by simp

text \<open>
  The earlier \<open>calculateTransform\<close> does register the downsampled clouds: the library's
  target input is the voxel-filtered source cloud and its source input the voxel-filtered
  target cloud moved by the guess.
\<close>

theorem calculateTransform_registers_downsampled:
  "gicp_InputTarget (calculateTransform_setup pcl src tgt guess config) =
     VoxelGrid_filter pcl (point_cloud_density config) (point_cloud_density config)
       (point_cloud_density config) (mPointCloud src) \<and>
   gicp_InputSource (calculateTransform_setup pcl src tgt guess config) =
     transformPointCloud
       (VoxelGrid_filter pcl (point_cloud_density config) (point_cloud_density config)
          (point_cloud_density config) (mPointCloud tgt)) guess"
  by (simp add: calculateTransform_setup_def downsample_v0_def getPointCloud_def Let_def)

text \<open>
  \<open>createConstraint\<close> fails with \<open>BadMeasurementType\<close> as soon as one of the two
  measurements is not a point cloud, whatever the library does.
\<close>

theorem createConstraint_BadMeasurementType:
  "createConstraint pcl sensor (NotPointCloud p) target odometry loop = Inl BadMeasurementType \<and>
   createConstraint pcl sensor source (NotPointCloud p) odometry loop = Inl BadMeasurementType"
  by (simp add: createConstraint_not_point_cloud dynamic_pointer_cast_def)

end
